theory Spec2Isabelle
  imports Main
begin

section \<open>JavaScript values\<close>

text \<open>
  The payloads handled by the audit middleware and the claims carried by a session token
  are JSON-like JavaScript values. Objects keep their own enumerable properties in
  insertion order; the keys of an object are pairwise distinct. Numbers only matter
  through their truthiness here, so they are integers plus \<open>NaN\<close>.
\<close>

datatype jsval =
    JUndefined
  | JNull
  | JBool bool
  | JNum int
  | JNaN
  | JStr string
  | JArr "jsval list"
  | JObj "(string \<times> jsval) list"

text \<open>JavaScript truthiness, as used by \<open>if (x)\<close>, \<open>!x\<close> and \<open>||\<close>.\<close>

fun truthy :: "jsval \<Rightarrow> bool" where
  "truthy JUndefined = False"
| "truthy JNull = False"
| "truthy (JBool b) = b"
| "truthy (JNum n) = (n \<noteq> 0)"
| "truthy JNaN = False"
| "truthy (JStr s) = (s \<noteq> [])"
| "truthy (JArr xs) = True"
| "truthy (JObj ps) = True"

text \<open>\<open>typeof v === 'object'\<close>: objects, arrays and \<open>null\<close>.\<close>

fun typeof_object :: "jsval \<Rightarrow> bool" where
  "typeof_object JNull = True"
| "typeof_object (JArr xs) = True"
| "typeof_object (JObj ps) = True"
| "typeof_object v = False"

text \<open>
  The object spread \<open>{ ...data }\<close> copies the own enumerable properties of \<open>data\<close> into a
  fresh plain object. For an array these are its elements under the keys \<open>'0'\<close>, \<open>'1'\<close>, ...
\<close>

fun digit_char :: "nat \<Rightarrow> char" where
  "digit_char n = char_of (48 + n)"

fun index_key :: "nat \<Rightarrow> string" where
  "index_key n = (if n < 10 then [digit_char n] else index_key (n div 10) @ [digit_char (n mod 10)])"

fun own_props :: "jsval \<Rightarrow> (string \<times> jsval) list" where
  "own_props (JObj ps) = ps"
| "own_props (JArr xs) = zip (map index_key [0..<length xs]) xs"
| "own_props v = []"

text \<open>Property read \<open>obj[k]\<close> (\<open>undefined\<close> when absent) and property write \<open>obj[k] = v\<close>.\<close>

fun get_prop :: "(string \<times> jsval) list \<Rightarrow> string \<Rightarrow> jsval" where
  "get_prop [] k = JUndefined"
| "get_prop ((k', v) # ps) k = (if k' = k then v else get_prop ps k)"

fun set_prop :: "string \<Rightarrow> jsval \<Rightarrow> (string \<times> jsval) list \<Rightarrow> (string \<times> jsval) list" where
  "set_prop k v [] = [(k, v)]"
| "set_prop k v ((k', v') # ps) = (if k' = k then (k, v) # ps else (k', v') # set_prop k v ps)"

section \<open>Audit redaction (\<open>middleware/auditLogger.js\<close>)\<close>

definition sensitiveFields :: "string list" where
  "sensitiveFields =
     [''password'', ''token'', ''nhsNumber'', ''nationalInsuranceNumber'', ''dateOfBirth'',
      ''emergencyContact'', ''nextOfKin'', ''medicalHistory'', ''medications'']"

definition redaction_marker :: jsval where
  "redaction_marker = JStr ''[REDACTED]''"

text \<open>One round of the loop \<open>sensitiveFields.forEach(field => ...)\<close>.\<close>

definition redact_field :: "string \<Rightarrow> (string \<times> jsval) list \<Rightarrow> (string \<times> jsval) list" where
  "redact_field field redacted =
     (if truthy (get_prop redacted field) then set_prop field redaction_marker redacted
      else redacted)"

lemma set_prop_entries:
  "(k, v) \<in> set (set_prop f m ps) \<Longrightarrow> v = m \<or> (k, v) \<in> set ps"
  by (induction ps) (auto split: if_splits)

lemma redact_field_entries:
  "(k, v) \<in> set (redact_field f ps) \<Longrightarrow> v = redaction_marker \<or> (k, v) \<in> set ps"
  by (auto simp: redact_field_def dest: set_prop_entries split: if_splits)

lemma fold_redact_field_entries:
  "(k, v) \<in> set (fold redact_field fs ps) \<Longrightarrow> v = redaction_marker \<or> (k, v) \<in> set ps"
  by (induction fs arbitrary: ps) (auto dest: redact_field_entries)

lemma own_props_smaller:
  "(k, v) \<in> set (own_props d) \<Longrightarrow> size v < size d"
proof (cases d)
  case (JArr xs)
  assume "(k, v) \<in> set (own_props d)"
  with JArr have "v \<in> set xs" by (auto dest: set_zip_rightD)
  then have "size v \<le> size_list size xs" by (simp add: size_list_estimation')
  with JArr show ?thesis by simp
next
  case (JObj ps)
  assume "(k, v) \<in> set (own_props d)"
  with JObj have "(k, v) \<in> set ps" by simp
  then have "size_prod (\<lambda>_. 0) size (k, v) \<le> size_list (size_prod (\<lambda>_. 0) size) ps"
    by (rule size_list_estimation') simp
  with JObj show ?thesis by simp
qed auto

text \<open>
  \<open>redactSensitiveData\<close>: a falsy or non-object value is returned as it is; otherwise the
  shallow copy has its sensitive fields replaced by the marker, and then every property
  holding a non-null object is replaced by its own redaction.
\<close>

function redactSensitiveData :: "jsval \<Rightarrow> jsval" where
  "redactSensitiveData data =
     (if \<not> truthy data \<or> \<not> typeof_object data then data
      else JObj (map (\<lambda>(key, v).
                  (key, if typeof_object v \<and> v \<noteq> JNull then redactSensitiveData v else v))
                (fold redact_field sensitiveFields (own_props data))))"
  by pat_completeness auto
termination
proof (relation "measure size", goal_cases)
  case 1
  show ?case by simp
next
  case (2 data x key v)
  then have "v = redaction_marker \<or> (key, v) \<in> set (own_props data)"
    by (auto dest: fold_redact_field_entries)
  with 2 show ?case
    by (auto simp: redaction_marker_def dest: own_props_smaller)
qed


section \<open>Staff records (\<open>models/Staff.js\<close>)\<close>

text \<open>
  The schema restricts \<open>accessLevel\<close> to three values. Dates are milliseconds since the
  epoch, as \<open>Date.now()\<close> and \<open>getTime()\<close> give them. \<open>facility\<close> is the populated
  reference (\<open>None\<close> when the referenced document does not exist); \<open>role\<close> and
  \<open>facilityId\<close> are the plain attributes the routes read from the document.
\<close>

datatype access_level = Carer | Senior | Admin

record facility_doc =
  facility_id :: string
  facility_name :: string

record staff =
  staff_id :: string
  email :: string
  role :: string
  accessLevel :: access_level
  facilityId :: jsval
  facility :: "facility_doc option"
  assignedResidents :: "string list"
  isActive :: bool
  loginAttempts :: "nat option"
  accountLocked :: bool
  lockUntil :: "int option"
  passwordChangedAt :: "int option"
  createdAt :: int

text \<open>The virtual \<open>isAccountLocked\<close>, read at time \<open>now\<close>.\<close>

definition isAccountLocked :: "staff \<Rightarrow> int \<Rightarrow> bool" where
  "isAccountLocked this now =
     (accountLocked this \<and> (case lockUntil this of None \<Rightarrow> False | Some t \<Rightarrow> t > now))"

text \<open>\<open>hasPermission\<close> with its table; a level without an entry gets the empty list.\<close>

definition permissions :: "(access_level \<times> string list) list" where
  "permissions =
     [(Carer, [''view_residents'', ''create_logs'', ''view_care_plans'', ''complete_tasks'']),
      (Senior, [''view_residents'', ''create_logs'', ''view_care_plans'', ''complete_tasks'',
                ''create_care_plans'', ''view_reports'', ''manage_tasks'']),
      (Admin, [''*''])]"

definition hasPermission :: "staff \<Rightarrow> string \<Rightarrow> bool" where
  "hasPermission this permission =
     (let userPermissions = (case map_of permissions (accessLevel this) of
                               Some ps \<Rightarrow> ps | None \<Rightarrow> [])
      in ''*'' \<in> set userPermissions \<or> permission \<in> set userPermissions)"

text \<open>
  The staff collection, keyed by the 24 lower-case hexadecimal digits of \<open>_id\<close>.
  \<open>findById\<close> casts its argument to an object id: \<open>undefined\<close> and \<open>null\<close> find nothing,
  a string of 24 hexadecimal digits (either case) or of 12 characters (taken as the 12
  bytes) is looked up, and a value that cannot be cast raises \<open>CastError\<close>.
\<close>

datatype js_error =
  JsonWebTokenError | TokenExpiredError | CastError | TypeError | MissingSchemaError

type_synonym store = "string \<Rightarrow> staff option"

definition lower_hex :: "char \<Rightarrow> char" where
  "lower_hex c = (if c \<in> set ''ABCDEF'' then char_of (of_char c + (32::nat)) else c)"

definition hex_digit :: "nat \<Rightarrow> char" where
  "hex_digit n = (if n < 10 then char_of (48 + n) else char_of (87 + n))"

definition bytes_hex :: "string \<Rightarrow> string" where
  "bytes_hex s =
     concat (map (\<lambda>c. [hex_digit (of_char c div 16), hex_digit (of_char c mod 16)]) s)"

definition cast_object_id :: "string \<Rightarrow> string option" where
  "cast_object_id s =
     (if length s = 24 \<and> (\<forall>c \<in> set s. c \<in> set ''0123456789abcdefABCDEF'')
      then Some (map lower_hex s)
      else if length s = 12 then Some (bytes_hex s)
      else None)"

fun findById :: "store \<Rightarrow> jsval \<Rightarrow> js_error + staff option" where
  "findById db JUndefined = Inr None"
| "findById db JNull = Inr None"
| "findById db (JStr s) =
     (case cast_object_id s of None \<Rightarrow> Inl CastError | Some i \<Rightarrow> Inr (db i))"
| "findById db v = Inl CastError"

section \<open>Session tokens (\<open>jsonwebtoken\<close>, \<open>routes/auth.js\<close>)\<close>

text \<open>
  A token is kept in symbolic form. \<open>Signed j\<close> is a well-formed compact token with the
  payload claims, the issue and expiry times in seconds, and the key its signature was
  made with; \<open>Malformed s\<close> is a string that is no such token (the empty string included).
  \<open>jwt_sign\<close> and \<open>jwt_verify\<close> follow the library: the clock is
  \<open>Math.floor(Date.now() / 1000)\<close>, a wrong signature is \<open>JsonWebTokenError\<close>, and a token
  is expired from the second \<open>exp\<close> on.
\<close>

record jwt =
  claims :: "(string \<times> jsval) list"
  iat :: int
  exp :: "int option"
  signed_with :: string

datatype token = Malformed string | Signed jwt

definition jwt_sign :: "(string \<times> jsval) list \<Rightarrow> string \<Rightarrow> int \<Rightarrow> int \<Rightarrow> token" where
  "jwt_sign payload secret expiresIn now =
     Signed \<lparr>claims = payload, iat = now div 1000,
             exp = Some (now div 1000 + expiresIn), signed_with = secret\<rparr>"

fun jwt_verify :: "token \<Rightarrow> string \<Rightarrow> int \<Rightarrow> js_error + jwt" where
  "jwt_verify (Malformed s) secret now = Inl JsonWebTokenError"
| "jwt_verify (Signed j) secret now =
     (if signed_with j \<noteq> secret then Inl JsonWebTokenError
      else case exp j of
             None \<Rightarrow> Inr j
           | Some e \<Rightarrow> if now div 1000 \<ge> e then Inl TokenExpiredError else Inr j)"

text \<open>
  The process: the secret and the two lifetimes in seconds from its environment (\<open>None\<close>
  when the variable is not set; the defaults are \<open>'7d'\<close> and \<open>'30d'\<close>), and the names of
  the models registered with \<open>mongoose.model\<close>.
\<close>

record env =
  JWT_SECRET :: string
  JWT_EXPIRES_IN :: "int option"
  JWT_REFRESH_EXPIRES_IN :: "int option"
  registered_models :: "string list"

definition generateTokens :: "env \<Rightarrow> staff \<Rightarrow> int \<Rightarrow> token \<times> token" where
  "generateTokens e user now =
     (let payload = [(''id'', JStr (staff_id user)), (''email'', JStr (email user)),
                     (''role'', JStr (role user)), (''facilityId'', facilityId user)];
          accessToken = jwt_sign payload (JWT_SECRET e)
                          (case JWT_EXPIRES_IN e of Some d \<Rightarrow> d | None \<Rightarrow> 7 * 24 * 60 * 60) now;
          refreshToken = jwt_sign [(''id'', JStr (staff_id user))] (JWT_SECRET e)
                          (case JWT_REFRESH_EXPIRES_IN e of Some d \<Rightarrow> d | None \<Rightarrow> 30 * 24 * 60 * 60) now
      in (accessToken, refreshToken))"



section \<open>The logger module (\<open>config/logger.js\<close>)\<close>

text \<open>
  The middleware binds \<open>logger\<close> to \<open>require('../config/logger')\<close>, the object that the
  module exports. These are its properties, each with whether it holds a function (the
  first four hold logger objects). A call \<open>logger.m(...)\<close> raises \<open>TypeError\<close> unless \<open>m\<close>
  is a property that holds a function; what such a function writes is not followed here.
\<close>

definition logger_exports :: "(string \<times> bool) list" where
  "logger_exports =
     [(''logger'', False), (''auditLogger'', False), (''securityLogger'', False),
      (''performanceLogger'', False), (''logAuth'', True), (''logDataAccess'', True),
      (''logCareEvent'', True), (''logSecurity'', True), (''logPerformance'', True),
      (''logSystem'', True), (''logAI'', True), (''logCompliance'', True),
      (''requestLogger'', True), (''logError'', True), (''gracefulShutdown'', True),
      (''cleanupOldLogs'', True)]"

definition logger_call :: "string \<Rightarrow> js_error option" where
  "logger_call method =
     (case map_of logger_exports method of Some True \<Rightarrow> None | _ \<Rightarrow> Some TypeError)"

section \<open>The request gate (\<open>middleware/auth.js\<close>)\<close>

text \<open>
  The \<open>Authorization\<close> header in parsed form: \<open>Bearer t\<close> is the string \<open>'Bearer '\<close>
  followed by the token \<open>t\<close>, \<open>Unparsed s\<close> a header that does not start with \<open>'Bearer '\<close>.
\<close>

datatype auth_header = Bearer token | Unparsed string

record request =
  req_method :: string
  originalUrl :: string
  authorization :: "auth_header option"
  cookie_accessToken :: "token option"
  params_residentId :: "string option"
  params_id :: "string option"
  req_body :: jsval
  req_ip :: string
  user_agent :: "string option"
  x_forwarded_for :: "string option"
  sessionID :: "string option"
  req_user :: "staff option"
  req_userId :: "string option"
  req_facilityId :: "string option"

datatype level = LInfo | LWarn | LError

type_synonym log_entry = "level \<times> string"

text \<open>
  A middleware calls \<open>next()\<close>, or ends the request with \<open>res.status(c).json(b)\<close>, or
  leaves with an error: for the \<open>async\<close> middlewares a rejected promise, which nothing
  handles, so that neither \<open>next()\<close> is called nor a response sent.
\<close>

datatype gate = Next | Reply nat jsval | Raises js_error

definition reply_body :: "string \<Rightarrow> string \<Rightarrow> jsval" where
  "reply_body err msg = JObj [(''error'', JStr err), (''message'', JStr msg)]"

fun token_truthy :: "token option \<Rightarrow> bool" where
  "token_truthy None = False"
| "token_truthy (Some (Malformed s)) = (s \<noteq> [])"
| "token_truthy (Some (Signed j)) = True"

definition extract_token :: "request \<Rightarrow> token option" where
  "extract_token req =
     (let token = (case authorization req of Some (Bearer t) \<Rightarrow> Some t | _ \<Rightarrow> None)
      in if \<not> token_truthy token \<and> token_truthy (cookie_accessToken req)
         then cookie_accessToken req else token)"

text \<open>The \<open>catch\<close> block of \<open>authenticateToken\<close>.\<close>

definition auth_catch :: "request \<Rightarrow> js_error \<Rightarrow> request \<times> gate \<times> log_entry list" where
  "auth_catch req err =
     (if err = JsonWebTokenError
      then (req, Reply 401 (reply_body ''Invalid Token'' ''The provided token is invalid''), [])
      else if err = TokenExpiredError
      then (req, Reply 401 (reply_body ''Token Expired''
                              ''Your session has expired. Please log in again.''), [])
      else
        (case logger_call ''error'' of
           Some raised \<Rightarrow> (req, Raises raised, [])
         | None \<Rightarrow>
             (req, Reply 500 (reply_body ''Authentication Error''
                                ''An error occurred during authentication''),
              [(LError, ''Authentication error:'')])))"

text \<open>
  \<open>authenticateToken\<close> at time \<open>now\<close>: the request as the middleware leaves it, how the
  middleware ends, and what it logged. A staff document that is found is populated along
  \<open>facility\<close> and \<open>assignedZones\<close>, which needs the models \<open>Facility\<close> and \<open>Zone\<close> to be
  registered and raises \<open>MissingSchemaError\<close> otherwise.
\<close>

definition authenticateToken ::
  "env \<Rightarrow> store \<Rightarrow> int \<Rightarrow> request \<Rightarrow> request \<times> gate \<times> log_entry list" where
  "authenticateToken e db now req =
     (case extract_token req of
        None \<Rightarrow>
          (req, Reply 401 (reply_body ''Authentication Required'' ''Access token is required''), [])
      | Some token \<Rightarrow>
          if \<not> token_truthy (Some token)
          then (req, Reply 401 (reply_body ''Authentication Required''
                                  ''Access token is required''), [])
          else
            (case jwt_verify token (JWT_SECRET e) now of
               Inl err \<Rightarrow> auth_catch req err
             | Inr decoded \<Rightarrow>
                 (case findById db (get_prop (claims decoded) ''userId'') of
                    Inl err \<Rightarrow> auth_catch req err
                  | Inr None \<Rightarrow>
                      (req, Reply 401 (reply_body ''Authentication Failed'' ''User not found''), [])
                  | Inr (Some user) \<Rightarrow>
                      if ''Facility'' \<notin> set (registered_models e)
                         \<or> ''Zone'' \<notin> set (registered_models e)
                      then auth_catch req MissingSchemaError
                      else if \<not> isActive user
                      then (req, Reply 401 (reply_body ''Account Disabled''
                              ''Your account has been disabled. Please contact an administrator.''), [])
                      else if isAccountLocked user now
                      then (req, Reply 401 (reply_body ''Account Locked''
                              ''Your account has been temporarily locked due to multiple failed login attempts.''), [])
                      else if iat decoded <
                                (case passwordChangedAt user of Some t \<Rightarrow> t | None \<Rightarrow> createdAt user)
                                  div 1000
                      then (req, Reply 401 (reply_body ''Token Invalid''
                              ''Please log in again after password change''), [])
                      else
                        (case facility user of
                           None \<Rightarrow>
                             auth_catch (req\<lparr>req_user := Some user,
                                             req_userId := Some (staff_id user)\<rparr>) TypeError
                         | Some f \<Rightarrow>
                             (case logger_call ''info'' of
                                Some raised \<Rightarrow>
                                  auth_catch (req\<lparr>req_user := Some user,
                                                  req_userId := Some (staff_id user),
                                                  req_facilityId := Some (facility_id f)\<rparr>) raised
                              | None \<Rightarrow>
                                  (req\<lparr>req_user := Some user, req_userId := Some (staff_id user),
                                       req_facilityId := Some (facility_id f)\<rparr>,
                                   Next, [(LInfo, ''User authenticated successfully'')]))))))"

text \<open>
  \<open>requireResidentAccess\<close>. The resident id is the first truthy one of
  \<open>req.params.residentId\<close>, \<open>req.params.id\<close> and \<open>req.body.residentId\<close>. Reading
  \<open>req.body.residentId\<close> without a body, or \<open>req.user.accessLevel\<close> without a user,
  raises and enters the \<open>catch\<close> block, as does a failing \<open>logger.warn\<close>.
\<close>

definition js_or :: "jsval \<Rightarrow> jsval \<Rightarrow> jsval" where
  "js_or a b = (if truthy a then a else b)"

definition param :: "string option \<Rightarrow> jsval" where
  "param p = (case p of None \<Rightarrow> JUndefined | Some s \<Rightarrow> JStr s)"

definition requested_resident :: "request \<Rightarrow> js_error + jsval" where
  "requested_resident req =
     (let fromParams = js_or (param (params_residentId req)) (param (params_id req))
      in if truthy fromParams then Inr fromParams
         else (case req_body req of
                 JUndefined \<Rightarrow> Inl TypeError
               | JNull \<Rightarrow> Inl TypeError
               | b \<Rightarrow> Inr (get_prop (own_props b) ''residentId'')))"

fun includes_id :: "string list \<Rightarrow> jsval \<Rightarrow> bool" where
  "includes_id ids (JStr s) = (s \<in> set ids)"
| "includes_id ids v = False"

text \<open>The \<open>catch\<close> block of \<open>requireResidentAccess\<close>.\<close>

definition resident_catch :: "gate \<times> log_entry list" where
  "resident_catch =
     (case logger_call ''error'' of
        Some raised \<Rightarrow> (Raises raised, [])
      | None \<Rightarrow>
          (Reply 500 (reply_body ''Access Check Error''
                        ''An error occurred while checking access permissions''),
           [(LError, ''Error checking resident access:'')]))"

definition requireResidentAccess :: "request \<Rightarrow> gate \<times> log_entry list" where
  "requireResidentAccess req =
     (case requested_resident req of
        Inl err \<Rightarrow> resident_catch
      | Inr residentId \<Rightarrow>
          if \<not> truthy residentId
          then (Reply 400 (reply_body ''Bad Request'' ''Resident ID is required''), [])
          else
            (case req_user req of
               None \<Rightarrow> resident_catch
             | Some user \<Rightarrow>
                 if accessLevel user = Admin then (Next, [])
                 else
                   (let hasAccess = (includes_id (assignedResidents user) residentId
                                     \<or> accessLevel user = Senior)
                    in if \<not> hasAccess
                       then
                         (case logger_call ''warn'' of
                            Some raised \<Rightarrow> resident_catch
                          | None \<Rightarrow>
                              (Reply 403 (reply_body ''Access Denied''
                                            ''You do not have access to this resident's data''),
                               [(LWarn, ''Access denied - resident access restricted'')]))
                       else (Next, []))))"

section \<open>Routes (\<open>routes/auth.js\<close>, \<open>routes/dailyLogs.js\<close>)\<close>

text \<open>
  An error object as the error middleware reads it: \<open>name\<close>, \<open>statusCode\<close>, \<open>message\<close>,
  \<open>code\<close>, the messages of \<open>errors\<close> and the keys of \<open>keyValue\<close> (\<open>None\<close> where the
  property is absent). The classes derived from \<open>AppError\<close> set the first three.
\<close>

record app_error =
  err_name :: string
  err_statusCode :: "nat option"
  err_message :: string
  err_code :: "int option"
  err_errors :: "string list option"
  err_keyValue :: "string list option"

definition AppError :: "string \<Rightarrow> nat \<Rightarrow> string \<Rightarrow> app_error" where
  "AppError name statusCode message =
     \<lparr>err_name = name, err_statusCode = Some statusCode, err_message = message,
      err_code = None, err_errors = None, err_keyValue = None\<rparr>"


definition ForbiddenError :: "string \<Rightarrow> app_error" where
  "ForbiddenError message = AppError ''ForbiddenError'' 403 message"


text \<open>What \<open>POST /reset-password\<close> stores on the staff record, at time \<open>now\<close>.\<close>

definition reset_password_save :: "staff \<Rightarrow> int \<Rightarrow> staff" where
  "reset_password_save user now = user\<lparr>passwordChangedAt := Some now\<rparr>"

text \<open>
  \<open>PUT /api/daily-logs/:id\<close>: the two checks made before the update. The log document
  has \<open>createdBy\<close> but no \<open>timestamp\<close> (the schema has none), so
  \<open>(new Date() - log.timestamp) / (1000 * 60 * 60)\<close> is \<open>NaN\<close> and \<open>NaN > 24\<close> is false.
  \<open>staff_roles\<close> are the values that the staff schema admits for \<open>role\<close>.
\<close>

record daily_log =
  log_createdBy :: string

definition staff_roles :: "string list" where
  "staff_roles =
     [''Carer'', ''Senior Carer'', ''Manager'', ''Administrator'', ''Nurse'',
      ''Activities Coordinator'', ''Maintenance'', ''Kitchen Staff'', ''Housekeeping'']"

definition canEdit :: "daily_log \<Rightarrow> staff \<Rightarrow> bool" where
  "canEdit log user = (log_createdBy log = staff_id user \<or> role user \<in> set [''Admin'', ''Senior''])"

fun js_greater :: "jsval \<Rightarrow> int \<Rightarrow> bool" where
  "js_greater (JNum a) b = (a > b)"
| "js_greater v b = False"

definition daily_log_edit_checks :: "daily_log \<Rightarrow> staff \<Rightarrow> app_error + unit" where
  "daily_log_edit_checks log user =
     (if \<not> canEdit log user
      then Inl (ForbiddenError
                  ''You can only edit your own logs unless you are an admin or senior carer'')
      else
        (let hoursSinceCreation = JNaN
         in if role user = ''Carer'' \<and> js_greater hoursSinceCreation 24
            then Inl (ForbiddenError ''Logs can only be edited within 24 hours of creation'')
            else Inr ()))"

section \<open>The audit trail (\<open>middleware/auditLogger.js\<close>)\<close>

text \<open>
  What the server leaves behind: the lines of \<open>logs/audit.log\<close> (each line the
  serialised entry) and the responses handed to the original \<open>res.send\<close> (status and
  body). A function with effects returns the error it raised to its caller, if any,
  and the server as it is then.
\<close>

record server =
  audit_file :: "jsval list"
  sent :: "(nat \<times> jsval) list"

text \<open>
  \<open>fs.appendFile(auditLogFile, line).catch(...)\<close>: the line is appended, or nothing is
  written and the rejection goes to the \<open>catch\<close> handler. That handler runs inside the
  promise; whatever it does or raises reaches no caller.
\<close>

datatype fs_result = Appended | AppendFailed

definition appendFile_caught :: "fs_result \<Rightarrow> jsval \<Rightarrow> server \<Rightarrow> server" where
  "appendFile_caught fs line st =
     (case fs of
        Appended \<Rightarrow> st\<lparr>audit_file := audit_file st @ [line]\<rparr>
      | AppendFailed \<Rightarrow> st)"

definition sensitiveEndpoints :: "string list" where
  "sensitiveEndpoints =
     [''/api/auth'', ''/api/residents'', ''/api/care-plans'', ''/api/daily-logs'',
      ''/api/staff'', ''/api/reports'', ''/api/risk-assessments'']"

definition startsWith :: "string \<Rightarrow> string \<Rightarrow> bool" where
  "startsWith s p = (take (length p) s = p)"

fun includes_str :: "string \<Rightarrow> string \<Rightarrow> bool" where
  "includes_str [] sub = (sub = [])"
| "includes_str (c # cs) sub = (startsWith (c # cs) sub \<or> includes_str cs sub)"

definition requiresAuditLogging :: "string \<Rightarrow> bool" where
  "requiresAuditLogging url = list_ex (\<lambda>endpoint. startsWith url endpoint) sensitiveEndpoints"

definition str_or :: "string \<Rightarrow> string \<Rightarrow> jsval" where
  "str_or s d = (if s = [] then JStr d else JStr s)"

definition extractUserInfo :: "request \<Rightarrow> (string \<times> jsval) list" where
  "extractUserInfo req =
     [(''userId'', case req_user req of None \<Rightarrow> JStr ''anonymous''
                   | Some u \<Rightarrow> str_or (staff_id u) ''anonymous''),
      (''userEmail'', case req_user req of None \<Rightarrow> JStr ''unknown''
                      | Some u \<Rightarrow> str_or (email u) ''unknown''),
      (''userRole'', case req_user req of None \<Rightarrow> JStr ''unknown''
                     | Some u \<Rightarrow> str_or (role u) ''unknown''),
      (''facilityId'', case req_user req of None \<Rightarrow> JStr ''unknown''
                       | Some u \<Rightarrow> js_or (facilityId u) (JStr ''unknown'')),
      (''sessionId'', case sessionID req of None \<Rightarrow> JStr ''unknown''
                      | Some s \<Rightarrow> str_or s ''unknown'')]"

text \<open>
  \<open>createAuditEntry\<close>. The timestamp is kept as the clock value; the response time is
  the decimal number followed by \<open>ms\<close>.
\<close>

definition show_int :: "int \<Rightarrow> string" where
  "show_int i = (if i < 0 then ''-'' @ index_key (nat (- i)) else index_key (nat i))"

definition has_authorization :: "request \<Rightarrow> bool" where
  "has_authorization req =
     (case authorization req of None \<Rightarrow> False | Some (Bearer t) \<Rightarrow> True
      | Some (Unparsed s) \<Rightarrow> s \<noteq> [])"

definition createAuditEntry :: "request \<Rightarrow> nat \<Rightarrow> int \<Rightarrow> int \<Rightarrow> jsval" where
  "createAuditEntry req statusCode responseTime now =
     JObj ([(''timestamp'', JNum now), (''eventType'', JStr ''API_ACCESS''),
            (''action'', JStr (req_method req @ '' '' @ originalUrl req))]
           @ extractUserInfo req
           @ [(''requestDetails'',
                 JObj [(''method'', JStr (req_method req)), (''url'', JStr (originalUrl req)),
                       (''userAgent'', param (user_agent req)), (''ip'', JStr (req_ip req)),
                       (''headers'',
                          redactSensitiveData
                            (JObj [(''x-forwarded-for'', param (x_forwarded_for req)),
                                   (''authorization'',
                                      if has_authorization req then JStr ''[REDACTED]''
                                      else JUndefined)]))]),
              (''requestBody'',
                 if req_method req \<noteq> ''GET'' then redactSensitiveData (req_body req)
                 else JUndefined),
              (''responseDetails'',
                 JObj [(''statusCode'', JNum (int statusCode)),
                       (''responseTime'', JStr (show_int responseTime @ ''ms''))]),
              (''compliance'',
                 JObj [(''cqcRelevant'', JBool True), (''gdprCompliant'', JBool True),
                       (''retentionPeriod'', JStr ''7 years'')])])"

text \<open>
  The function that \<open>auditLogger\<close> installs as \<open>res.send\<close>; \<open>res.status(c).json(b)\<close> ends
  in one call of it. \<open>startTime\<close> is the clock when the middleware ran, \<open>now\<close> the clock
  at the send.
\<close>

definition audited_send ::
  "fs_result \<Rightarrow> int \<Rightarrow> int \<Rightarrow> request \<Rightarrow> nat \<Rightarrow> jsval \<Rightarrow> server
     \<Rightarrow> js_error option \<times> server" where
  "audited_send fs startTime now req statusCode data st =
     (let responseTime = now - startTime
      in if requiresAuditLogging (originalUrl req) \<or> statusCode \<ge> 400
         then
           (let auditEntry = createAuditEntry req statusCode responseTime now
            in case logger_call ''info'' of
                 Some raised \<Rightarrow> (Some raised, st)
               | None \<Rightarrow>
                   (let st1 = appendFile_caught fs auditEntry st
                    in case (if statusCode = 401 \<or> statusCode = 403
                             then logger_call ''warn'' else None) of
                         Some raised \<Rightarrow> (Some raised, st1)
                       | None \<Rightarrow>
                           (case (if req_method req = ''GET''
                                     \<and> includes_str (originalUrl req) ''/residents/''
                                  then logger_call ''info'' else None) of
                              Some raised \<Rightarrow> (Some raised, st1)
                            | None \<Rightarrow>
                                (case (if req_method req \<in> set [''POST'', ''PUT'', ''PATCH'', ''DELETE'']
                                       then logger_call ''info'' else None) of
                                   Some raised \<Rightarrow> (Some raised, st1)
                                 | None \<Rightarrow>
                                     (None, st1\<lparr>sent := sent st1 @ [(statusCode, data)]\<rparr>)))))
         else (None, st\<lparr>sent := sent st @ [(statusCode, data)]\<rparr>))"

text \<open>\<open>auditCareEvent(eventType, details, userId)\<close>: the entry it builds and what it does.\<close>

definition care_audit_entry :: "int \<Rightarrow> string \<Rightarrow> jsval \<Rightarrow> jsval \<Rightarrow> jsval" where
  "care_audit_entry now eventType details userId =
     JObj [(''timestamp'', JNum now), (''eventType'', JStr ''CARE_EVENT''),
           (''careEventType'', JStr eventType), (''userId'', userId),
           (''details'', redactSensitiveData details),
           (''compliance'', JObj [(''cqcRelevant'', JBool True),
                                  (''careQualityImpact'', JBool True)])]"

definition auditCareEvent ::
  "fs_result \<Rightarrow> int \<Rightarrow> string \<Rightarrow> jsval \<Rightarrow> jsval \<Rightarrow> server \<Rightarrow> js_error option \<times> server" where
  "auditCareEvent fs now eventType details userId st =
     (let auditEntry = care_audit_entry now eventType details userId
      in case logger_call ''info'' of
           Some raised \<Rightarrow> (Some raised, st)
         | None \<Rightarrow> (None, appendFile_caught fs auditEntry st))"

section \<open>Sample data\<close>

text \<open>A staff record, an environment, a collection and a request for the concrete runs.\<close>

definition sample_staff :: staff where
  "sample_staff =
     \<lparr>staff_id = ''507f1f77bcf86cd799439011'', email = ''carer@home.example'', role = ''Carer'',
      accessLevel = Carer, facilityId = JStr ''fac-1'',
      facility = Some \<lparr>facility_id = ''fac-1'', facility_name = ''Home''\<rparr>,
      assignedResidents = [''res-1''], isActive = True, loginAttempts = Some 0,
      accountLocked = False, lockUntil = None, passwordChangedAt = Some 1000, createdAt = 1000\<rparr>"

definition sample_env :: env where
  "sample_env = \<lparr>JWT_SECRET = ''secret'', JWT_EXPIRES_IN = None, JWT_REFRESH_EXPIRES_IN = None,
      registered_models = [''CarePlan'', ''Staff'', ''Resident'', ''DailyLog'']\<rparr>"

definition sample_store :: store where
  "sample_store = Map.empty(''507f1f77bcf86cd799439011'' \<mapsto> sample_staff)"

definition sample_request :: request where
  "sample_request =
     \<lparr>req_method = ''GET'', originalUrl = ''/api/tasks'', authorization = None,
      cookie_accessToken = None, params_residentId = None, params_id = None,
      req_body = JObj [], req_ip = ''10.0.0.7'', user_agent = None,
      x_forwarded_for = None, sessionID = None, req_user = None, req_userId = None,
      req_facilityId = None\<rparr>"

definition sample_server :: server where
  "sample_server = \<lparr>audit_file = [], sent = []\<rparr>"

section \<open>Properties of the redaction\<close>

declare redactSensitiveData.simps [simp del]

definition redact_value :: "jsval \<Rightarrow> jsval" where
  "redact_value v = (if typeof_object v \<and> v \<noteq> JNull then redactSensitiveData v else v)"

definition settled :: "jsval \<Rightarrow> bool" where
  "settled v = (\<not> truthy v \<or> v = redaction_marker)"

lemma redact_non_object:
  "\<not> truthy d \<or> \<not> typeof_object d \<Longrightarrow> redactSensitiveData d = d"
  by (subst redactSensitiveData.simps) simp

lemma redact_object:
  "truthy d \<Longrightarrow> typeof_object d \<Longrightarrow>
   redactSensitiveData d =
     JObj (map (\<lambda>(key, v). (key, redact_value v)) (fold redact_field sensitiveFields (own_props d)))"
  by (subst redactSensitiveData.simps) (simp add: redact_value_def)

lemma get_prop_set_prop:
  "get_prop (set_prop f m ps) k = (if k = f then m else get_prop ps k)"
  by (induction ps) auto

lemma get_prop_redact_field:
  "get_prop (redact_field f ps) k =
     (if k = f \<and> truthy (get_prop ps f) then redaction_marker else get_prop ps k)"
  by (simp add: redact_field_def get_prop_set_prop)

lemma settled_redact_field:
  "settled (get_prop ps k) \<or> k = f \<Longrightarrow> settled (get_prop (redact_field f ps) k)"
  by (auto simp: get_prop_redact_field settled_def)

lemma settled_fold:
  "settled (get_prop ps k) \<or> k \<in> set fs \<Longrightarrow> settled (get_prop (fold redact_field fs ps) k)"
proof (induction fs arbitrary: ps)
  case Nil
  then show ?case by simp
next
  case (Cons f fs)
  have "settled (get_prop (redact_field f ps) k) \<or> k \<in> set fs"
    using Cons.prems settled_redact_field [of ps k f] by auto
  then show ?case using Cons.IH by simp
qed

lemma set_prop_same:
  "get_prop ps f = m \<Longrightarrow> m \<noteq> JUndefined \<Longrightarrow> set_prop f m ps = ps"
  by (induction ps) auto

lemma redact_field_fixed:
  "settled (get_prop ps f) \<Longrightarrow> redact_field f ps = ps"
  by (auto simp: redact_field_def settled_def redaction_marker_def intro: set_prop_same)

lemma fold_redact_field_fixed:
  "\<forall>f \<in> set fs. settled (get_prop ps f) \<Longrightarrow> fold redact_field fs ps = ps"
  by (induction fs) (simp_all add: redact_field_fixed)

lemma get_prop_map:
  "h JUndefined = JUndefined \<Longrightarrow>
   get_prop (map (\<lambda>(key, v). (key, h v)) ps) k = h (get_prop ps k)"
  by (induction ps) auto

lemma redact_value_settled: "settled v \<Longrightarrow> redact_value v = v"
  by (cases v) (auto simp: settled_def redact_value_def redaction_marker_def)

lemma redact_is_object:
  "truthy d \<Longrightarrow> typeof_object d \<Longrightarrow> \<exists>qs. redactSensitiveData d = JObj qs"
  by (simp add: redact_object)

text \<open>
  Claim C6. Redacting an already redacted payload changes nothing: for every payload,
  nested objects and arrays included, a second run of \<open>redactSensitiveData\<close> returns the
  result of the first run.
\<close>

theorem C6_redaction_idempotent:
  "redactSensitiveData (redactSensitiveData d) = redactSensitiveData d"
proof (induction d rule: redactSensitiveData.induct)
  case (1 d)
  show ?case
  proof (cases "truthy d \<and> typeof_object d")
    case False
    then show ?thesis by (auto simp: redact_non_object)
  next
    case True
    define qs where "qs = fold redact_field sensitiveFields (own_props d)"
    define rs where "rs = map (\<lambda>(key, v). (key, redact_value v)) qs"
    have rd: "redactSensitiveData d = JObj rs"
      using True by (simp add: redact_object qs_def rs_def)
    have marks: "settled (get_prop rs f)" if "f \<in> set sensitiveFields" for f
    proof -
      have s: "settled (get_prop qs f)"
        unfolding qs_def using that by (rule settled_fold [OF disjI2])
      have "get_prop rs f = redact_value (get_prop qs f)"
        unfolding rs_def by (rule get_prop_map) (simp add: redact_value_def)
      with s show ?thesis by (simp add: redact_value_settled)
    qed
    have fixed: "fold redact_field sensitiveFields rs = rs"
      by (rule fold_redact_field_fixed) (simp add: marks)
    have inner: "redact_value (redact_value v) = redact_value v"
      if "(key, v) \<in> set qs" for key v
    proof (cases "typeof_object v \<and> v \<noteq> JNull")
      case False
      then have "redact_value v = v" unfolding redact_value_def by auto
      then show ?thesis by simp
    next
      case obj: True
      then have tv: "truthy v" by (cases v) auto
      from obj tv obtain ws where ws: "redactSensitiveData v = JObj ws"
        using redact_is_object by blast
      have "redactSensitiveData (redactSensitiveData v) = redactSensitiveData v"
        using "1.IH" [of "(key, v)" key v] True that obj by (simp add: qs_def)
      with obj ws show ?thesis by (simp add: redact_value_def)
    qed
    have again: "map (\<lambda>(key, v). (key, redact_value v)) rs = rs"
      unfolding rs_def using inner by (auto simp: case_prod_beta)
    have "redactSensitiveData (JObj rs) =
            JObj (map (\<lambda>(key, v). (key, redact_value v)) (fold redact_field sensitiveFields rs))"
      by (simp add: redact_object)
    with fixed again rd show ?thesis by simp
  qed
qed


theorem C6_redaction_idempotent_witness:
  "redactSensitiveData
     (JObj [(''email'', JStr ''a@b''), (''password'', JStr ''pw''),
            (''profile'', JObj [(''nhsNumber'', JNum 42), (''tags'', JArr [JStr ''x''])])]) =
   JObj [(''email'', JStr ''a@b''), (''password'', JStr ''[REDACTED]''),
         (''profile'', JObj [(''nhsNumber'', JStr ''[REDACTED]''),
                               (''tags'', JObj [(''0'', JStr ''x'')])])]
   \<and> redactSensitiveData
     (redactSensitiveData
       (JObj [(''email'', JStr ''a@b''), (''password'', JStr ''pw''),
              (''profile'', JObj [(''nhsNumber'', JNum 42), (''tags'', JArr [JStr ''x''])])])) =
   JObj [(''email'', JStr ''a@b''), (''password'', JStr ''[REDACTED]''),
         (''profile'', JObj [(''nhsNumber'', JStr ''[REDACTED]''),
                               (''tags'', JObj [(''0'', JStr ''x'')])])]"
proof -
  let ?p = "JObj [(''email'', JStr ''a@b''), (''password'', JStr ''pw''),
            (''profile'', JObj [(''nhsNumber'', JNum 42), (''tags'', JArr [JStr ''x''])])]"
  have first: "redactSensitiveData ?p =
     JObj [(''email'', JStr ''a@b''), (''password'', JStr ''[REDACTED]''),
           (''profile'', JObj [(''nhsNumber'', JStr ''[REDACTED]''),
                                 (''tags'', JObj [(''0'', JStr ''x'')])])]"
    by code_simp
  show ?thesis
    using C6_redaction_idempotent [of ?p] first by simp
qed

section \<open>Properties of the permission table\<close>

lemma hasPermission_cases:
  "hasPermission u c =
     (case accessLevel u of
        Carer \<Rightarrow> c \<in> {''view_residents'', ''create_logs'', ''view_care_plans'', ''complete_tasks''}
      | Senior \<Rightarrow> c \<in> {''view_residents'', ''create_logs'', ''view_care_plans'', ''complete_tasks'',
                       ''create_care_plans'', ''view_reports'', ''manage_tasks''}
      | Admin \<Rightarrow> True)"
  by (cases "accessLevel u") (auto simp: hasPermission_def permissions_def)

text \<open>
  Claim C4. \<open>hasPermission\<close> depends on the access level and the capability name only and
  agrees with the table: a carer holds exactly the four base capabilities, a senior holds
  these and the three further ones (a strict superset), an admin passes every check.
\<close>

theorem C4_hasPermission_table:
  assumes "accessLevel carer = Carer" and "accessLevel senior = Senior"
    and "accessLevel admin = Admin"
  shows "{c. hasPermission carer c} =
           {''view_residents'', ''create_logs'', ''view_care_plans'', ''complete_tasks''}
       \<and> {c. hasPermission senior c} =
           {c. hasPermission carer c} \<union> {''create_care_plans'', ''view_reports'', ''manage_tasks''}
       \<and> {c. hasPermission carer c} \<subset> {c. hasPermission senior c}
       \<and> (\<forall>c. hasPermission admin c)
       \<and> (\<forall>u u' c. accessLevel u = accessLevel u' \<longrightarrow> hasPermission u c = hasPermission u' c)"
proof -
  have b: "{c. hasPermission carer c} =
           {''view_residents'', ''create_logs'', ''view_care_plans'', ''complete_tasks''}"
    using assms(1) by (auto simp: hasPermission_cases)
  have e: "{c. hasPermission senior c} =
           {c. hasPermission carer c} \<union> {''create_care_plans'', ''view_reports'', ''manage_tasks''}"
    unfolding b using assms(2) by (auto simp: hasPermission_cases)
  have "''manage_tasks'' \<notin> {c. hasPermission carer c}" unfolding b by simp
  with e have p: "{c. hasPermission carer c} \<subset> {c. hasPermission senior c}" by blast
  have a: "\<forall>c. hasPermission admin c" using assms(3) by (simp add: hasPermission_cases)
  have d: "\<forall>u u' c. accessLevel u = accessLevel u' \<longrightarrow> hasPermission u c = hasPermission u' c"
    by (simp add: hasPermission_cases)
  from b e p a d show ?thesis by blast
qed

theorem C4_hasPermission_table_witness:
  "{c. hasPermission sample_staff c} =
     {''view_residents'', ''create_logs'', ''view_care_plans'', ''complete_tasks''}
   \<and> {c. hasPermission sample_staff c} \<subset> {c. hasPermission (sample_staff\<lparr>accessLevel := Senior\<rparr>) c}
   \<and> hasPermission (sample_staff\<lparr>accessLevel := Admin\<rparr>) ''delete_everything''"
proof -
  have 1: "accessLevel sample_staff = Carer" by (simp add: sample_staff_def)
  have 2: "accessLevel (sample_staff\<lparr>accessLevel := Senior\<rparr>) = Senior" by simp
  have 3: "accessLevel (sample_staff\<lparr>accessLevel := Admin\<rparr>) = Admin" by simp
  note table = C4_hasPermission_table [OF 1 2 3]
  from table have a: "{c. hasPermission sample_staff c} =
     {''view_residents'', ''create_logs'', ''view_care_plans'', ''complete_tasks''}"
    by (rule conjunct1)
  from table have b: "{c. hasPermission sample_staff c}
      \<subset> {c. hasPermission (sample_staff\<lparr>accessLevel := Senior\<rparr>) c}"
    by (elim conjE)
  from table have "\<forall>c. hasPermission (sample_staff\<lparr>accessLevel := Admin\<rparr>) c"
    by (elim conjE)
  then have c: "hasPermission (sample_staff\<lparr>accessLevel := Admin\<rparr>) ''delete_everything''"
    by (rule spec)
  from a b c show ?thesis by (intro conjI)
qed

section \<open>Properties of the request gate\<close>

lemma logger_call_info: "logger_call ''info'' = Some TypeError"
  by (simp add: logger_call_def logger_exports_def)

lemma logger_call_warn: "logger_call ''warn'' = Some TypeError"
  by (simp add: logger_call_def logger_exports_def)

lemma logger_call_error: "logger_call ''error'' = Some TypeError"
  by (simp add: logger_call_def logger_exports_def)

lemma verify_signed:
  "jwt_verify (jwt_sign payload secret lifetime t0) secret now =
     (if now div 1000 \<ge> t0 div 1000 + lifetime then Inl TokenExpiredError
      else Inr \<lparr>claims = payload, iat = t0 div 1000,
                 exp = Some (t0 div 1000 + lifetime), signed_with = secret\<rparr>)"
  by (simp add: jwt_sign_def)

lemma access_token_form:
  "fst (generateTokens e u t0) =
     jwt_sign [(''id'', JStr (staff_id u)), (''email'', JStr (email u)),
               (''role'', JStr (role u)), (''facilityId'', facilityId u)] (JWT_SECRET e)
              (case JWT_EXPIRES_IN e of Some d \<Rightarrow> d | None \<Rightarrow> 7 * 24 * 60 * 60) t0"
  by (simp add: generateTokens_def Let_def)

text \<open>
  Claim C1, as the code has it. The access token made by \<open>generateTokens\<close> verifies inside
  its lifetime and its payload holds the principal's id under \<open>id\<close>, but
  \<open>authenticateToken\<close> reads \<open>decoded.userId\<close>, which that payload does not have: the gate
  answers 401 \<open>User not found\<close> whatever the collection holds. From the end of the
  lifetime on, verification fails with \<open>TokenExpiredError\<close> and the gate answers 401
  \<open>Token Expired\<close>.
\<close>

theorem C1_issued_access_token_never_resolves:
  assumes "authorization req = Some (Bearer (fst (generateTokens e u t0)))"
    and "lifetime = (case JWT_EXPIRES_IN e of Some d \<Rightarrow> d | None \<Rightarrow> 7 * 24 * 60 * 60)"
  shows "(now div 1000 < t0 div 1000 + lifetime \<longrightarrow>
            (\<exists>d. jwt_verify (fst (generateTokens e u t0)) (JWT_SECRET e) now = Inr d
                 \<and> get_prop (claims d) ''id'' = JStr (staff_id u)
                 \<and> get_prop (claims d) ''userId'' = JUndefined)
            \<and> authenticateToken e db now req =
                 (req, Reply 401 (reply_body ''Authentication Failed'' ''User not found''), []))
       \<and> (now div 1000 \<ge> t0 div 1000 + lifetime \<longrightarrow>
            jwt_verify (fst (generateTokens e u t0)) (JWT_SECRET e) now = Inl TokenExpiredError
            \<and> authenticateToken e db now req =
                 (req, Reply 401 (reply_body ''Token Expired''
                                    ''Your session has expired. Please log in again.''), []))"
proof -
  let ?payload = "[(''id'', JStr (staff_id u)), (''email'', JStr (email u)),
                   (''role'', JStr (role u)), (''facilityId'', facilityId u)]"
  let ?tok = "jwt_sign ?payload (JWT_SECRET e) lifetime t0"
  have tok: "fst (generateTokens e u t0) = ?tok"
    by (simp add: access_token_form assms(2))
  have ext: "extract_token req = Some ?tok"
    using assms(1) unfolding tok by (simp add: extract_token_def jwt_sign_def)
  have tr: "token_truthy (Some ?tok)" by (simp add: jwt_sign_def)
  show ?thesis
  proof (intro conjI impI)
    assume "now div 1000 < t0 div 1000 + lifetime"
    then have v: "jwt_verify ?tok (JWT_SECRET e) now =
        Inr \<lparr>claims = ?payload, iat = t0 div 1000,
               exp = Some (t0 div 1000 + lifetime), signed_with = JWT_SECRET e\<rparr>"
      by (simp add: verify_signed)
    then show "\<exists>d. jwt_verify (fst (generateTokens e u t0)) (JWT_SECRET e) now = Inr d
                 \<and> get_prop (claims d) ''id'' = JStr (staff_id u)
                 \<and> get_prop (claims d) ''userId'' = JUndefined"
      unfolding tok by simp
    show "authenticateToken e db now req =
            (req, Reply 401 (reply_body ''Authentication Failed'' ''User not found''), [])"
      using ext tr v by (simp add: authenticateToken_def)
  next
    assume "now div 1000 \<ge> t0 div 1000 + lifetime"
    then have v: "jwt_verify ?tok (JWT_SECRET e) now = Inl TokenExpiredError"
      by (simp add: verify_signed)
    then show "jwt_verify (fst (generateTokens e u t0)) (JWT_SECRET e) now = Inl TokenExpiredError"
      unfolding tok .
    show "authenticateToken e db now req =
            (req, Reply 401 (reply_body ''Token Expired''
                               ''Your session has expired. Please log in again.''), [])"
      using ext tr v by (simp add: authenticateToken_def auth_catch_def)
  qed
qed


theorem C1_issued_access_token_never_resolves_witness:
  "sample_store (staff_id sample_staff) = Some sample_staff \<and> isActive sample_staff
   \<and> authenticateToken sample_env sample_store 5000
        (sample_request\<lparr>authorization :=
           Some (Bearer (fst (generateTokens sample_env sample_staff 2000)))\<rparr>) =
       (sample_request\<lparr>authorization :=
           Some (Bearer (fst (generateTokens sample_env sample_staff 2000)))\<rparr>,
        Reply 401 (reply_body ''Authentication Failed'' ''User not found''), [])"
proof -
  let ?req = "sample_request\<lparr>authorization :=
                Some (Bearer (fst (generateTokens sample_env sample_staff 2000)))\<rparr>"
  have a: "authorization ?req = Some (Bearer (fst (generateTokens sample_env sample_staff 2000)))"
    by simp
  have l: "(604800::int) = (case JWT_EXPIRES_IN sample_env of Some d \<Rightarrow> d | None \<Rightarrow> 7 * 24 * 60 * 60)"
    by (simp add: sample_env_def)
  have w: "(5000::int) div 1000 < 2000 div 1000 + 604800" by simp
  have s: "sample_store (staff_id sample_staff) = Some sample_staff \<and> isActive sample_staff"
    by (simp add: sample_store_def sample_staff_def)
  from C1_issued_access_token_never_resolves [OF a l, where now = 5000 and db = sample_store] w s
  show ?thesis by blast
qed


lemma gate_absent:
  "\<not> token_truthy (extract_token req) \<Longrightarrow>
   authenticateToken e db now req =
     (req, Reply 401 (reply_body ''Authentication Required'' ''Access token is required''), [])"
  by (cases "extract_token req") (simp_all add: authenticateToken_def)

lemma gate_verify_error:
  "extract_token req = Some t \<Longrightarrow> token_truthy (Some t) \<Longrightarrow>
   jwt_verify t (JWT_SECRET e) now = Inl err \<Longrightarrow>
   authenticateToken e db now req = auth_catch req err"
  by (simp add: authenticateToken_def)

lemma gate_unresolved:
  assumes "extract_token req = Some t" and "token_truthy (Some t)"
    and "jwt_verify t (JWT_SECRET e) now = Inr d"
    and "get_prop (claims d) ''userId'' = JUndefined"
  shows "authenticateToken e db now req =
           (req, Reply 401 (reply_body ''Authentication Failed'' ''User not found''), [])"
  using assms by (simp add: authenticateToken_def)

lemma auth_catch_cases:
  "auth_catch req err =
     (req, Reply 401 (reply_body ''Invalid Token'' ''The provided token is invalid''), [])
   \<or> auth_catch req err =
     (req, Reply 401 (reply_body ''Token Expired''
                        ''Your session has expired. Please log in again.''), [])
   \<or> auth_catch req err = (req, Raises TypeError, [])"
  by (simp add: auth_catch_def logger_call_error)

definition refuses :: "gate \<Rightarrow> bool" where
  "refuses g = ((\<exists>b. g = Reply 401 b) \<or> g = Raises TypeError)"

lemma refuses_simps:
  "refuses (Reply 401 b)" "refuses (Raises TypeError)" "\<not> refuses Next"
  "refuses (Reply c b) = (c = 401)"
  by (auto simp: refuses_def)

lemma auth_catch_refuses: "refuses (fst (snd (auth_catch req err)))"
  using auth_catch_cases [of req err] by (auto simp: refuses_simps)

lemma gate_refuses: "refuses (fst (snd (authenticateToken e db now req)))"
  unfolding authenticateToken_def
  by (simp add: auth_catch_refuses refuses_simps logger_call_info split: option.split sum.split)

lemma gate_never_next: "fst (snd (authenticateToken e db now req)) \<noteq> Next"
  using gate_refuses [of e db now req] by (auto simp: refuses_simps)

lemma gate_reply_401:
  "authenticateToken e db now req = (req', Reply c b, logs) \<Longrightarrow> c = 401"
  using gate_refuses [of e db now req] by (simp add: refuses_simps)


lemma gate_signed_without_userId:
  assumes "extract_token req = Some (jwt_sign payload (JWT_SECRET e) lifetime t0)"
    and "get_prop payload ''userId'' = JUndefined"
  shows "authenticateToken e db now req =
           (if now div 1000 \<ge> t0 div 1000 + lifetime
            then (req, Reply 401 (reply_body ''Token Expired''
                                    ''Your session has expired. Please log in again.''), [])
            else (req, Reply 401 (reply_body ''Authentication Failed'' ''User not found''), []))"
proof (cases "now div 1000 \<ge> t0 div 1000 + lifetime")
  case True
  have tr: "token_truthy (Some (jwt_sign payload (JWT_SECRET e) lifetime t0))"
    by (simp add: jwt_sign_def)
  from True have "jwt_verify (jwt_sign payload (JWT_SECRET e) lifetime t0) (JWT_SECRET e) now =
                    Inl TokenExpiredError"
    by (simp add: verify_signed)
  from gate_verify_error [OF assms(1) tr this] True show ?thesis
    by (simp add: auth_catch_def)
next
  case False
  have tr: "token_truthy (Some (jwt_sign payload (JWT_SECRET e) lifetime t0))"
    by (simp add: jwt_sign_def)
  from False have v: "jwt_verify (jwt_sign payload (JWT_SECRET e) lifetime t0) (JWT_SECRET e) now =
      Inr \<lparr>claims = payload, iat = t0 div 1000,
             exp = Some (t0 div 1000 + lifetime), signed_with = JWT_SECRET e\<rparr>"
    by (simp add: verify_signed)
  from gate_unresolved [OF assms(1) tr v] assms(2) False show ?thesis by simp
qed






text \<open>
  Claim C3, as the code has it. An access token issued at \<open>t0\<close> and presented unexpired
  after the password was reset at a later \<open>t1\<close> is answered 401, but with
  \<open>User not found\<close>, the answer it gets without any reset, and not with the stale-token
  answer \<open>Token Invalid\<close>: the payload has no \<open>userId\<close>, so the comparison of \<open>iat\<close> with
  \<open>passwordChangedAt\<close> is never reached.
\<close>

theorem C3_issued_token_never_rejected_as_stale:
  assumes "authorization req = Some (Bearer (fst (generateTokens e u t0)))"
    and "lifetime = (case JWT_EXPIRES_IN e of Some d \<Rightarrow> d | None \<Rightarrow> 7 * 24 * 60 * 60)"
    and "t0 < t1" and "t1 \<le> now" and "now div 1000 < t0 div 1000 + lifetime"
  shows "authenticateToken e (db(staff_id u \<mapsto> reset_password_save u t1)) now req =
           (req, Reply 401 (reply_body ''Authentication Failed'' ''User not found''), [])
       \<and> authenticateToken e (db(staff_id u \<mapsto> reset_password_save u t1)) now req =
           authenticateToken e (db(staff_id u \<mapsto> u)) now req
       \<and> reply_body ''Authentication Failed'' ''User not found'' \<noteq>
           reply_body ''Token Invalid'' ''Please log in again after password change''"
proof -
  let ?payload = "[(''id'', JStr (staff_id u)), (''email'', JStr (email u)),
                   (''role'', JStr (role u)), (''facilityId'', facilityId u)]"
  have ext: "extract_token req = Some (jwt_sign ?payload (JWT_SECRET e) lifetime t0)"
    using assms(1) by (simp add: extract_token_def access_token_form assms(2) jwt_sign_def)
  have p: "get_prop ?payload ''userId'' = JUndefined" by simp
  have g: "authenticateToken e db' now req =
             (req, Reply 401 (reply_body ''Authentication Failed'' ''User not found''), [])" for db'
    using gate_signed_without_userId [OF ext p, of db' now] assms(5) by simp
  have d: "reply_body ''Authentication Failed'' ''User not found'' \<noteq>
           reply_body ''Token Invalid'' ''Please log in again after password change''"
    by (simp add: reply_body_def)
  from g [of "db(staff_id u \<mapsto> reset_password_save u t1)"] g [of "db(staff_id u \<mapsto> u)"] d
  show ?thesis by simp
qed

theorem C3_issued_token_never_rejected_as_stale_witness:
  "authenticateToken sample_env
      (sample_store(''507f1f77bcf86cd799439011'' \<mapsto> reset_password_save sample_staff 6000000))
      7000000
      (sample_request\<lparr>authorization :=
         Some (Bearer (fst (generateTokens sample_env sample_staff 5000)))\<rparr>) =
   (sample_request\<lparr>authorization :=
         Some (Bearer (fst (generateTokens sample_env sample_staff 5000)))\<rparr>,
    Reply 401 (reply_body ''Authentication Failed'' ''User not found''), [])"
proof -
  let ?req = "sample_request\<lparr>authorization :=
                Some (Bearer (fst (generateTokens sample_env sample_staff 5000)))\<rparr>"
  have 1: "authorization ?req = Some (Bearer (fst (generateTokens sample_env sample_staff 5000)))"
    by simp
  have 2: "(604800::int) = (case JWT_EXPIRES_IN sample_env of Some d \<Rightarrow> d | None \<Rightarrow> 7 * 24 * 60 * 60)"
    by (simp add: sample_env_def)
  have 3: "(5000::int) < 6000000" and 4: "(6000000::int) \<le> 7000000"
    and 5: "(7000000::int) div 1000 < 5000 div 1000 + 604800" by simp_all
  have id: "staff_id sample_staff = ''507f1f77bcf86cd799439011''" by (simp add: sample_staff_def)
  from C3_issued_token_never_rejected_as_stale
    [where db = sample_store and u = sample_staff and req = "?req" and e = sample_env,
     OF 1 2 3 4 5]
  show ?thesis unfolding id by (rule conjunct1)
qed

text \<open>
  Claim C9, amended. An absent, garbled, wrongly signed or expired token is answered with
  status 401, and the body names the reason: \<open>Authentication Required\<close>, \<open>Invalid Token\<close>
  (garbled and wrongly signed alike) and \<open>Token Expired\<close> are three different bodies.
\<close>

theorem C9_authentication_failures_are_401_with_specific_body:
  "(\<not> token_truthy (extract_token req) \<longrightarrow>
      authenticateToken e db now req =
        (req, Reply 401 (reply_body ''Authentication Required'' ''Access token is required''), []))
   \<and> (extract_token req = Some (Malformed s) \<and> s \<noteq> [] \<longrightarrow>
      authenticateToken e db now req =
        (req, Reply 401 (reply_body ''Invalid Token'' ''The provided token is invalid''), []))
   \<and> (extract_token req = Some (Signed j) \<and> signed_with j \<noteq> JWT_SECRET e \<longrightarrow>
      authenticateToken e db now req =
        (req, Reply 401 (reply_body ''Invalid Token'' ''The provided token is invalid''), []))
   \<and> (extract_token req = Some (Signed j) \<and> signed_with j = JWT_SECRET e
        \<and> exp j = Some x \<and> now div 1000 \<ge> x \<longrightarrow>
      authenticateToken e db now req =
        (req, Reply 401 (reply_body ''Token Expired''
                           ''Your session has expired. Please log in again.''), []))
   \<and> distinct [reply_body ''Authentication Required'' ''Access token is required'',
                 reply_body ''Invalid Token'' ''The provided token is invalid'',
                 reply_body ''Token Expired'' ''Your session has expired. Please log in again.'']"
proof (intro conjI impI)
  show "distinct [reply_body ''Authentication Required'' ''Access token is required'',
                 reply_body ''Invalid Token'' ''The provided token is invalid'',
                 reply_body ''Token Expired'' ''Your session has expired. Please log in again.'']"
    by (simp add: reply_body_def)
next
  assume "\<not> token_truthy (extract_token req)"
  then show "authenticateToken e db now req =
        (req, Reply 401 (reply_body ''Authentication Required'' ''Access token is required''), [])"
    by (rule gate_absent)
next
  assume "extract_token req = Some (Malformed s) \<and> s \<noteq> []"
  then show "authenticateToken e db now req =
        (req, Reply 401 (reply_body ''Invalid Token'' ''The provided token is invalid''), [])"
    by (simp add: gate_verify_error [where err = JsonWebTokenError] auth_catch_def)
next
  assume "extract_token req = Some (Signed j) \<and> signed_with j \<noteq> JWT_SECRET e"
  then show "authenticateToken e db now req =
        (req, Reply 401 (reply_body ''Invalid Token'' ''The provided token is invalid''), [])"
    by (simp add: gate_verify_error [where err = JsonWebTokenError] auth_catch_def)
next
  assume "extract_token req = Some (Signed j) \<and> signed_with j = JWT_SECRET e
        \<and> exp j = Some x \<and> now div 1000 \<ge> x"
  then show "authenticateToken e db now req =
        (req, Reply 401 (reply_body ''Token Expired''
                           ''Your session has expired. Please log in again.''), [])"
    by (simp add: gate_verify_error [where err = TokenExpiredError] auth_catch_def)
qed

theorem C9_authentication_failures_are_401_with_specific_body_witness:
  "authenticateToken sample_env sample_store 7000 sample_request =
     (sample_request,
      Reply 401 (reply_body ''Authentication Required'' ''Access token is required''), [])
   \<and> authenticateToken sample_env sample_store 7000
       (sample_request\<lparr>authorization := Some (Bearer (Malformed ''abc''))\<rparr>) =
     (sample_request\<lparr>authorization := Some (Bearer (Malformed ''abc''))\<rparr>,
      Reply 401 (reply_body ''Invalid Token'' ''The provided token is invalid''), [])
   \<and> authenticateToken (sample_env\<lparr>JWT_SECRET := ''other''\<rparr>) sample_store 7000
       (sample_request\<lparr>authorization :=
          Some (Bearer (fst (generateTokens sample_env sample_staff 5000)))\<rparr>) =
     (sample_request\<lparr>authorization :=
          Some (Bearer (fst (generateTokens sample_env sample_staff 5000)))\<rparr>,
      Reply 401 (reply_body ''Invalid Token'' ''The provided token is invalid''), [])
   \<and> authenticateToken sample_env sample_store 604806000
       (sample_request\<lparr>authorization :=
          Some (Bearer (fst (generateTokens sample_env sample_staff 5000)))\<rparr>) =
     (sample_request\<lparr>authorization :=
          Some (Bearer (fst (generateTokens sample_env sample_staff 5000)))\<rparr>,
      Reply 401 (reply_body ''Token Expired''
                   ''Your session has expired. Please log in again.''), [])"
proof -
  let ?j = "\<lparr>claims = [(''id'', JStr ''507f1f77bcf86cd799439011''),
                       (''email'', JStr ''carer@home.example''), (''role'', JStr ''Carer''),
                       (''facilityId'', JStr ''fac-1'')],
             iat = 5, exp = Some 604805, signed_with = ''secret''\<rparr>"
  let ?req = "sample_request\<lparr>authorization :=
                Some (Bearer (fst (generateTokens sample_env sample_staff 5000)))\<rparr>"
  have tok: "fst (generateTokens sample_env sample_staff 5000) = Signed ?j"
    by (simp add: access_token_form jwt_sign_def sample_env_def sample_staff_def)
  have ext: "extract_token ?req = Some (Signed ?j)"
    unfolding tok by (simp add: extract_token_def)
  have h1: "\<not> token_truthy (extract_token sample_request)"
    by (simp add: extract_token_def sample_request_def)
  have h2: "extract_token (sample_request\<lparr>authorization := Some (Bearer (Malformed ''abc''))\<rparr>) =
              Some (Malformed ''abc'') \<and> ''abc'' \<noteq> []"
    by (simp add: extract_token_def)
  have h3: "extract_token ?req = Some (Signed ?j)
            \<and> signed_with ?j \<noteq> JWT_SECRET (sample_env\<lparr>JWT_SECRET := ''other''\<rparr>)"
    using ext by simp
  have h4: "extract_token ?req = Some (Signed ?j) \<and> signed_with ?j = JWT_SECRET sample_env
            \<and> exp ?j = Some 604805 \<and> (604806000::int) div 1000 \<ge> 604805"
    using ext by (simp add: sample_env_def)
  note a1 = C9_authentication_failures_are_401_with_specific_body
    [where req = sample_request and e = sample_env and db = sample_store and now = 7000,
     THEN conjunct1, THEN mp, OF h1]
  note a2 = C9_authentication_failures_are_401_with_specific_body
    [where req = "sample_request\<lparr>authorization := Some (Bearer (Malformed ''abc''))\<rparr>"
       and e = sample_env and db = sample_store and now = 7000 and s = "''abc''",
     THEN conjunct2, THEN conjunct1, THEN mp, OF h2]
  note a3 = C9_authentication_failures_are_401_with_specific_body
    [where req = "?req" and e = "sample_env\<lparr>JWT_SECRET := ''other''\<rparr>" and db = sample_store
       and now = 7000 and j = "?j",
     THEN conjunct2, THEN conjunct2, THEN conjunct1, THEN mp, OF h3]
  note a4 = C9_authentication_failures_are_401_with_specific_body
    [where req = "?req" and e = sample_env and db = sample_store
       and now = 604806000 and j = "?j" and x = 604805,
     THEN conjunct2, THEN conjunct2, THEN conjunct2, THEN conjunct1, THEN mp, OF h4]
  from a1 a2 a3 a4 show ?thesis by (intro conjI)
qed

text \<open>
  The claim as first stated fails: the answer to a request without a token and the answer
  to an expired token differ, so the caller learns which reason applied.
\<close>

theorem C9_counterexample:
  "fst (snd (authenticateToken sample_env sample_store 7000 sample_request)) =
     Reply 401 (JObj [(''error'', JStr ''Authentication Required''),
                      (''message'', JStr ''Access token is required'')])
   \<and> fst (snd (authenticateToken sample_env sample_store 604806000
        (sample_request\<lparr>authorization :=
           Some (Bearer (fst (generateTokens sample_env sample_staff 5000)))\<rparr>))) =
     Reply 401 (JObj [(''error'', JStr ''Token Expired''),
                      (''message'', JStr ''Your session has expired. Please log in again.'')])
   \<and> fst (snd (authenticateToken sample_env sample_store 7000 sample_request)) \<noteq>
     fst (snd (authenticateToken sample_env sample_store 604806000
        (sample_request\<lparr>authorization :=
           Some (Bearer (fst (generateTokens sample_env sample_staff 5000)))\<rparr>)))"
  by (simp add: authenticateToken_def extract_token_def generateTokens_def jwt_sign_def Let_def
      sample_env_def sample_request_def auth_catch_def reply_body_def)


section \<open>Properties of the refresh route\<close>







section \<open>Properties of the resource checks\<close>

lemma resident_catch_raises: "resident_catch = (Raises TypeError, [])"
  by (simp add: resident_catch_def logger_call_error)

lemma requireResidentAccess_decision:
  assumes "req_user req = Some user" and "requested_resident req = Inr residentId"
    and "truthy residentId"
  shows "requireResidentAccess req =
     (if includes_id (assignedResidents user) residentId
         \<or> accessLevel user = Senior \<or> accessLevel user = Admin
      then (Next, [])
      else (Raises TypeError, []))"
  using assms
  by (auto simp: requireResidentAccess_def Let_def logger_call_warn resident_catch_raises)

text \<open>
  Claim C5, as the code has it. \<open>requireResidentAccess\<close> calls \<open>next()\<close> exactly for an
  assigned resident or an access level \<open>Senior\<close> or \<open>Admin\<close>. For every other principal
  it reaches \<open>logger.warn\<close>, which raises, and the \<open>catch\<close> block raises again: the
  middleware ends in an error and no request is ever answered 403. In the edit check of a
  daily log the escalation compares \<open>role\<close> with \<open>Admin\<close> and \<open>Senior\<close>, which no staff
  role can be: for a staff record the check holds for the creator only, every other
  principal is refused, an elevated one included, and the creator always passes.
\<close>

theorem C5_refusal_raises_instead_of_403:
  "(req_user req = Some user \<and> requested_resident req = Inr (JStr rid) \<and> rid \<noteq> [] \<longrightarrow>
      requireResidentAccess req =
        (if rid \<in> set (assignedResidents user)
            \<or> accessLevel user = Senior \<or> accessLevel user = Admin
         then (Next, [])
         else (Raises TypeError, [])))
   \<and> (\<forall>c b. fst (requireResidentAccess req) \<noteq> Reply 403 b \<and> (fst (requireResidentAccess req) = Reply c b \<longrightarrow> c = 400))
   \<and> (role user \<in> set staff_roles \<longrightarrow>
        canEdit log user = (log_createdBy log = staff_id user))
   \<and> (role user \<in> set staff_roles \<and> log_createdBy log \<noteq> staff_id user \<longrightarrow>
        daily_log_edit_checks log user =
          Inl (ForbiddenError
                 ''You can only edit your own logs unless you are an admin or senior carer''))
   \<and> (canEdit log user \<longrightarrow> daily_log_edit_checks log user = Inr ())"
proof (intro conjI impI allI)
  assume a: "req_user req = Some user \<and> requested_resident req = Inr (JStr rid) \<and> rid \<noteq> []"
  then have u: "req_user req = Some user" and r: "requested_resident req = Inr (JStr rid)"
    and n: "rid \<noteq> []" by simp_all
  have t: "truthy (JStr rid)" by (simp add: n)
  show "requireResidentAccess req =
        (if rid \<in> set (assignedResidents user)
            \<or> accessLevel user = Senior \<or> accessLevel user = Admin
         then (Next, [])
         else (Raises TypeError, []))"
    by (simp add: requireResidentAccess_decision [OF u r t])
next
  fix c b
  show "fst (requireResidentAccess req) \<noteq> Reply 403 b"
    by (auto simp: requireResidentAccess_def Let_def logger_call_warn resident_catch_raises
        split: sum.split option.split)
  show "fst (requireResidentAccess req) = Reply c b \<Longrightarrow> c = 400"
    by (auto simp: requireResidentAccess_def Let_def logger_call_warn resident_catch_raises
        split: sum.splits option.splits if_splits)
next
  assume "role user \<in> set staff_roles"
  then show "canEdit log user = (log_createdBy log = staff_id user)"
    by (auto simp: canEdit_def staff_roles_def)
next
  assume "role user \<in> set staff_roles \<and> log_createdBy log \<noteq> staff_id user"
  then have "\<not> canEdit log user" by (auto simp: canEdit_def staff_roles_def)
  then show "daily_log_edit_checks log user =
          Inl (ForbiddenError
                 ''You can only edit your own logs unless you are an admin or senior carer'')"
    by (simp add: daily_log_edit_checks_def)
next
  assume "canEdit log user"
  then show "daily_log_edit_checks log user = Inr ()"
    by (simp add: daily_log_edit_checks_def)
qed

theorem C5_refusal_raises_instead_of_403_witness:
  "requireResidentAccess (sample_request\<lparr>params_id := Some ''res-2'',
          req_user := Some sample_staff\<rparr>) = (Raises TypeError, [])
   \<and> requireResidentAccess (sample_request\<lparr>params_id := Some ''res-2'',
          req_user := Some (sample_staff\<lparr>accessLevel := Senior\<rparr>)\<rparr>) = (Next, [])
   \<and> requireResidentAccess (sample_request\<lparr>params_id := Some ''res-1'',
          req_user := Some sample_staff\<rparr>) = (Next, [])
   \<and> daily_log_edit_checks \<lparr>log_createdBy = ''507f1f77bcf86cd799439012''\<rparr>
        (sample_staff\<lparr>role := ''Senior Carer'', accessLevel := Senior\<rparr>) =
       Inl (ForbiddenError
              ''You can only edit your own logs unless you are an admin or senior carer'')"
proof -
  let ?log = "\<lparr>log_createdBy = ''507f1f77bcf86cd799439012''\<rparr>"
  let ?senior = "sample_staff\<lparr>role := ''Senior Carer'', accessLevel := Senior\<rparr>"
  have h: "req_user (sample_request\<lparr>params_id := Some r, req_user := Some u\<rparr>) = Some u
           \<and> requested_resident (sample_request\<lparr>params_id := Some r, req_user := Some u\<rparr>) =
               Inr (JStr r)
           \<and> r \<noteq> []" if "r \<noteq> []" for r u
    using that by (simp add: requested_resident_def sample_request_def js_or_def param_def)
  have ne: "''res-2'' \<noteq> []" "''res-1'' \<noteq> []" by simp_all
  note acc = C5_refusal_raises_instead_of_403 [THEN conjunct1, THEN mp]
  have 1: "requireResidentAccess (sample_request\<lparr>params_id := Some ''res-2'',
          req_user := Some sample_staff\<rparr>) = (Raises TypeError, [])"
    using acc [OF h [OF ne(1), of sample_staff]] by (simp add: sample_staff_def)
  have 2: "requireResidentAccess (sample_request\<lparr>params_id := Some ''res-2'',
          req_user := Some (sample_staff\<lparr>accessLevel := Senior\<rparr>)\<rparr>) = (Next, [])"
    using acc [OF h [OF ne(1), of "sample_staff\<lparr>accessLevel := Senior\<rparr>"]] by simp
  have 3: "requireResidentAccess (sample_request\<lparr>params_id := Some ''res-1'',
          req_user := Some sample_staff\<rparr>) = (Next, [])"
    using acc [OF h [OF ne(2), of sample_staff]] by (simp add: sample_staff_def)
  have r: "role ?senior \<in> set staff_roles \<and> log_createdBy ?log \<noteq> staff_id ?senior"
    by (simp add: staff_roles_def sample_staff_def)
  note 4 = C5_refusal_raises_instead_of_403
    [THEN conjunct2, THEN conjunct2, THEN conjunct2, THEN conjunct1, THEN mp, OF r]
  from 1 2 3 4 show ?thesis by (intro conjI)
qed


section \<open>Properties of the audit trail\<close>

lemma hook_raises:
  "requiresAuditLogging (originalUrl req) \<or> c \<ge> 400 \<Longrightarrow>
   audited_send fs startTime now req c b st = (Some TypeError, st)"
  by (simp add: audited_send_def Let_def logger_call_info)

text \<open>
  Claim C7, as the code has it. \<open>auditCareEvent\<close> raises \<open>TypeError\<close> to its caller on every
  call, whatever the outcome of the append: its first step is \<open>logger.info\<close>, which is not
  a function, and the file is never reached. The \<open>send\<close> installed by \<open>auditLogger\<close> raises
  in the same way for a sensitive URL or a status of 400 or more, before the response is
  handed on.
\<close>

theorem C7_audit_call_raises_to_its_caller:
  "auditCareEvent fs now eventType details userId st = (Some TypeError, st)
   \<and> (requiresAuditLogging (originalUrl req) \<or> c \<ge> 400 \<longrightarrow>
        audited_send fs startTime now req c b st = (Some TypeError, st))"
proof (intro conjI impI)
  show "auditCareEvent fs now eventType details userId st = (Some TypeError, st)"
    by (simp add: auditCareEvent_def Let_def logger_call_info)
next
  assume "requiresAuditLogging (originalUrl req) \<or> c \<ge> 400"
  then show "audited_send fs startTime now req c b st = (Some TypeError, st)"
    by (rule hook_raises)
qed

theorem C7_audit_call_raises_to_its_caller_witness:
  "auditCareEvent Appended 7000 ''USER_LOGIN'' (JObj [(''email'', JStr ''carer@home.example'')])
     (JStr ''507f1f77bcf86cd799439011'') sample_server = (Some TypeError, sample_server)
   \<and> audited_send Appended 7000 7003 (sample_request\<lparr>originalUrl := ''/api/auth/login''\<rparr>) 200
       JNull sample_server = (Some TypeError, sample_server)"
proof -
  have h: "requiresAuditLogging (originalUrl (sample_request\<lparr>originalUrl := ''/api/auth/login''\<rparr>))
           \<or> (200::nat) \<ge> 400"
    by (simp add: requiresAuditLogging_def sensitiveEndpoints_def startsWith_def)
  note t = C7_audit_call_raises_to_its_caller
    [where fs = Appended and now = 7000 and eventType = "''USER_LOGIN''"
       and details = "JObj [(''email'', JStr ''carer@home.example'')]"
       and userId = "JStr ''507f1f77bcf86cd799439011''" and st = sample_server, THEN conjunct1]
  note t2 = C7_audit_call_raises_to_its_caller
    [where fs = Appended and now = 7003 and startTime = 7000 and st = sample_server
       and req = "sample_request\<lparr>originalUrl := ''/api/auth/login''\<rparr>" and c = 200 and b = JNull,
     THEN conjunct2, THEN mp, OF h]
  from t t2 show ?thesis by (intro conjI)
qed

text \<open>
  Claim C8, as the code has it. The gate never calls \<open>next()\<close>, and each of its replies
  has status 401. Sending such a reply enters the audited branch of the installed \<open>send\<close>,
  which raises before the append and before the response is handed on: no audit record
  is written for any outcome of the gate, the missing token included.
\<close>

theorem C8_gate_outcome_leaves_no_audit_record:
  "(authenticateToken e db startTime req = (req', Reply c b, logs) \<longrightarrow>
      c = 401 \<and> audited_send fs startTime now req' c b st = (Some TypeError, st))
   \<and> fst (snd (authenticateToken e db startTime req)) \<noteq> Next
   \<and> (\<not> token_truthy (extract_token req) \<longrightarrow>
        authenticateToken e db startTime req =
          (req, Reply 401 (reply_body ''Authentication Required'' ''Access token is required''), [])
        \<and> audited_send fs startTime now req 401
             (reply_body ''Authentication Required'' ''Access token is required'') st =
            (Some TypeError, st))"
proof (intro conjI impI)
  assume g: "authenticateToken e db startTime req = (req', Reply c b, logs)"
  then show c: "c = 401" by (rule gate_reply_401)
  then have "requiresAuditLogging (originalUrl req') \<or> c \<ge> 400" by simp
  then show "audited_send fs startTime now req' c b st = (Some TypeError, st)"
    by (rule hook_raises)
next
  show "fst (snd (authenticateToken e db startTime req)) \<noteq> Next"
    by (rule gate_never_next)
next
  assume a: "\<not> token_truthy (extract_token req)"
  then show "authenticateToken e db startTime req =
          (req, Reply 401 (reply_body ''Authentication Required'' ''Access token is required''), [])"
    by (rule gate_absent)
  have "requiresAuditLogging (originalUrl req) \<or> (401::nat) \<ge> 400" by simp
  then show "audited_send fs startTime now req 401
             (reply_body ''Authentication Required'' ''Access token is required'') st =
            (Some TypeError, st)"
    by (rule hook_raises)
qed

theorem C8_gate_outcome_leaves_no_audit_record_witness:
  "authenticateToken sample_env sample_store 604806000
      (sample_request\<lparr>originalUrl := ''/api/residents'', authorization :=
         Some (Bearer (fst (generateTokens sample_env sample_staff 5000)))\<rparr>) =
     (sample_request\<lparr>originalUrl := ''/api/residents'', authorization :=
         Some (Bearer (fst (generateTokens sample_env sample_staff 5000)))\<rparr>,
      Reply 401 (reply_body ''Token Expired''
                   ''Your session has expired. Please log in again.''), [])
   \<and> audited_send Appended 604806000 604806002
        (sample_request\<lparr>originalUrl := ''/api/residents'', authorization :=
           Some (Bearer (fst (generateTokens sample_env sample_staff 5000)))\<rparr>) 401
        (reply_body ''Token Expired'' ''Your session has expired. Please log in again.'')
        sample_server = (Some TypeError, sample_server)
   \<and> audit_file sample_server = [] \<and> sent sample_server = []"
proof -
  let ?req = "sample_request\<lparr>originalUrl := ''/api/residents'', authorization :=
                Some (Bearer (fst (generateTokens sample_env sample_staff 5000)))\<rparr>"
  have g: "authenticateToken sample_env sample_store 604806000 ?req =
     (?req, Reply 401 (reply_body ''Token Expired''
                         ''Your session has expired. Please log in again.''), [])"
    by (simp add: authenticateToken_def extract_token_def generateTokens_def jwt_sign_def Let_def
      sample_env_def auth_catch_def)
  note t = C8_gate_outcome_leaves_no_audit_record
    [where e = sample_env and db = sample_store and startTime = 604806000 and req = "?req"
       and fs = Appended and now = 604806002 and st = sample_server,
     THEN conjunct1, THEN mp, OF g, THEN conjunct2]
  have s: "audit_file sample_server = [] \<and> sent sample_server = []"
    by (simp add: sample_server_def)
  from g t s show ?thesis by (intro conjI) simp_all
qed


end
